theory Spec2Isabelle
  imports Complex_Main "HOL-Library.Word"
begin

section \<open>go-calculator: the expression evaluator\<close>

text \<open>
  A shallow embedding of package \<open>calculator\<close>: the operator registry
  (\<open>NewOperatorEvaluatorFactory\<close> and the twelve evaluators), \<open>tokenize\<close>,
  \<open>symbolSegments\<close>, \<open>validate\<close>, \<open>toReversePolishNotation\<close>, \<open>parseNumber\<close> and
  \<open>EvaluateExpression\<close>.

  Conventions of the embedding.
  \<^item> A Go \<open>string\<close> is a byte sequence: \<open>string\<close> (a list of 8-bit \<open>char\<close>).
    \<open>for index, c := range s\<close> decodes UTF-8; the decoding is \<open>rangeString\<close>.
  \<^item> Go's \<open>int\<close> is \<open>int\<close> (indices and lengths stay far below \<open>2 ^ 63\<close>);
    the token offsets, of type \<open>uint16\<close>, are \<open>16 word\<close> and wrap.
  \<^item> \<open>float64\<close> is idealised as \<open>real\<close>: rounding, infinities, NaN and the
    sign of zero are not modelled, and the functions of package \<open>math\<close> are the
    real functions on the arguments where Go returns a finite value.
  \<^item> A returned \<open>error\<close> is \<open>Inl\<close> of a sum; a run-time panic (a method call on
    a nil interface, an index out of range) is the error value \<open>Panic\<close>.
  \<^item> A slice is a list in the order of the slice: \<open>append\<close> adds at the end, the
    top of a stack is \<open>last\<close>.
\<close>

subsection \<open>Errors\<close>

datatype error =
    GoError string                  \<comment> \<open>\<open>fmt.Errorf\<close> / \<open>errors.New\<close> with this message\<close>
  | NumError string string string   \<comment> \<open>\<open>*strconv.NumError\<close>: function, input, reason\<close>
  | Panic string                    \<comment> \<open>a run-time panic\<close>

subsection \<open>Tokens\<close>

datatype tokenType = number | operator | leftParen | rightParen | eof

record token =
  tokenType :: tokenType
  tvalue :: string
  start :: "16 word"
  tend :: "16 word"

subsection \<open>Operator evaluators\<close>

datatype Precedence = Normal | Middle | High

text \<open>The constants are declared with \<open>iota\<close>: \<open>Normal = 0\<close>, \<open>Middle = 1\<close>, \<open>High = 2\<close>.\<close>

fun Precedence_iota :: "Precedence \<Rightarrow> int" where
  "Precedence_iota Normal = 0"
| "Precedence_iota Middle = 1"
| "Precedence_iota High = 2"

datatype Type = Infix | Function | Suffix

datatype OperatorEvaluator =
    additionEvaluator
  | subtractionEvaluator
  | multiplicationEvaluator
  | divisionEvaluator
  | remainderEvaluator
  | powerEvaluator
  | factorialEvaluator
  | sqrtEvaluator
  | logarithmEvaluator
  | sinEvaluator
  | cosEvaluator
  | tanEvaluator

text \<open>The integer part of a real, towards zero.\<close>

definition math_Trunc :: "real \<Rightarrow> int" where
  "math_Trunc x = (if 0 \<le> x then \<lfloor>x\<rfloor> else \<lceil>x\<rceil>)"

text \<open>
  The conversion \<open>int(left)\<close> of a \<open>float64\<close> to the 64-bit \<open>int\<close> drops the
  fraction. When the integer part does not fit the type, Go leaves the result to
  the implementation; the model takes the value of amd64, the least \<open>int\<close>.
\<close>

definition float64_to_int :: "real \<Rightarrow> int" where
  "float64_to_int x =
     (if - (2 ^ 63) \<le> math_Trunc x \<and> math_Trunc x < 2 ^ 63 then math_Trunc x
      else - (2 ^ 63))"

text \<open>
  \<open>math.Mod(x, y)\<close>: the remainder with the sign of \<open>x\<close>, \<open>x - y * trunc (x / y)\<close>.
  \<open>math.Pow(x, y)\<close>: the integer power for an integral \<open>y\<close>, the real power
  otherwise.
\<close>

definition math_Mod :: "real \<Rightarrow> real \<Rightarrow> real" where
  "math_Mod x y = x - y * of_int (math_Trunc (x / y))"

definition math_Pow :: "real \<Rightarrow> real \<Rightarrow> real" where
  "math_Pow x y =
     (if y = of_int \<lfloor>y\<rfloor>
      then (if 0 \<le> y then x ^ nat \<lfloor>y\<rfloor> else inverse (x ^ nat (- \<lfloor>y\<rfloor>)))
      else x powr y)"

text \<open>
  The loop of \<open>factorialEvaluator.Evaluate\<close>:
  \<open>for i := 1; i <= int(left); i++ { result *= float64(i) }\<close>.
  The model multiplies reals; the code rounds every product to \<open>float64\<close>. The
  two agree as long as the product is a \<open>float64\<close> value, which it is up to
  \<open>22!\<close>; for a larger bound the model's value is not the code's.
\<close>

function factorialLoop :: "int \<Rightarrow> int \<Rightarrow> real \<Rightarrow> real" where
  "factorialLoop i n result =
     (if i \<le> n then factorialLoop (i + 1) n (result * of_int i) else result)"
  by pat_completeness auto
termination
  by (relation "measure (\<lambda>(i, n, result). nat (n + 1 - i))") auto

declare factorialLoop.simps [simp del]

fun Evaluate :: "OperatorEvaluator \<Rightarrow> real \<Rightarrow> real \<Rightarrow> error + real" where
  "Evaluate additionEvaluator left right = Inr (left + right)"
| "Evaluate subtractionEvaluator left right = Inr (left - right)"
| "Evaluate multiplicationEvaluator left right = Inr (left * right)"
| "Evaluate divisionEvaluator left right =
     (if right = 0 then Inl (GoError ''division by zero'') else Inr (left / right))"
| "Evaluate remainderEvaluator left right = Inr (math_Mod left right)"
| "Evaluate powerEvaluator left right = Inr (math_Pow left right)"
| "Evaluate factorialEvaluator left right = Inr (factorialLoop 1 (float64_to_int left) 1)"
| "Evaluate sqrtEvaluator left right = Inr (sqrt left)"
| "Evaluate logarithmEvaluator left right = Inr (ln left)"
| "Evaluate sinEvaluator left right = Inr (sin left)"
| "Evaluate cosEvaluator left right = Inr (cos left)"
| "Evaluate tanEvaluator left right = Inr (tan left)"

fun Supports :: "OperatorEvaluator \<Rightarrow> string \<Rightarrow> bool" where
  "Supports additionEvaluator op = (op = ''+'')"
| "Supports subtractionEvaluator op = (op = ''-'')"
| "Supports multiplicationEvaluator op = (op = ''*'')"
| "Supports divisionEvaluator op = (op = ''/'')"
| "Supports remainderEvaluator op = (op = ''%'')"
| "Supports powerEvaluator op = (op = ''^'')"
| "Supports factorialEvaluator op = (op = ''!'')"
| "Supports sqrtEvaluator op = (op = ''sqrt'')"
| "Supports logarithmEvaluator op = (op = ''log'')"
| "Supports sinEvaluator op = (op = ''sin'')"
| "Supports cosEvaluator op = (op = ''cos'')"
| "Supports tanEvaluator op = (op = ''tan'')"

fun PrecedenceOf :: "OperatorEvaluator \<Rightarrow> Precedence" where
  "PrecedenceOf additionEvaluator = Normal"
| "PrecedenceOf subtractionEvaluator = Normal"
| "PrecedenceOf multiplicationEvaluator = Normal"
| "PrecedenceOf divisionEvaluator = Middle"
| "PrecedenceOf remainderEvaluator = Middle"
| "PrecedenceOf powerEvaluator = High"
| "PrecedenceOf factorialEvaluator = High"
| "PrecedenceOf sqrtEvaluator = High"
| "PrecedenceOf logarithmEvaluator = High"
| "PrecedenceOf sinEvaluator = High"
| "PrecedenceOf cosEvaluator = High"
| "PrecedenceOf tanEvaluator = High"

fun TypeOf :: "OperatorEvaluator \<Rightarrow> Type" where
  "TypeOf additionEvaluator = Infix"
| "TypeOf subtractionEvaluator = Infix"
| "TypeOf multiplicationEvaluator = Infix"
| "TypeOf divisionEvaluator = Infix"
| "TypeOf remainderEvaluator = Infix"
| "TypeOf powerEvaluator = Infix"
| "TypeOf factorialEvaluator = Suffix"
| "TypeOf sqrtEvaluator = Function"
| "TypeOf logarithmEvaluator = Function"
| "TypeOf sinEvaluator = Function"
| "TypeOf cosEvaluator = Function"
| "TypeOf tanEvaluator = Function"

subsection \<open>The factory\<close>

record operatorEvaluatorFactory =
  evaluators :: "string \<rightharpoonup> OperatorEvaluator"

definition NewOperatorEvaluatorFactory :: operatorEvaluatorFactory where
  "NewOperatorEvaluatorFactory =
     \<lparr>evaluators = map_of
        [(''+'', additionEvaluator),
         (''-'', subtractionEvaluator),
         (''*'', multiplicationEvaluator),
         (''/'', divisionEvaluator),
         (''%'', remainderEvaluator),
         (''^'', powerEvaluator),
         (''!'', factorialEvaluator),
         (''sqrt'', sqrtEvaluator),
         (''log'', logarithmEvaluator),
         (''sin'', sinEvaluator),
         (''cos'', cosEvaluator),
         (''tan'', tanEvaluator)]\<rparr>"

definition IsValid :: "operatorEvaluatorFactory \<Rightarrow> string \<Rightarrow> bool" where
  "IsValid f op = (evaluators f op \<noteq> None)"

text \<open>\<open>Create\<close> returns the map's entry: \<open>None\<close> is the nil interface of a missing key.\<close>

definition Create :: "operatorEvaluatorFactory \<Rightarrow> string \<Rightarrow> OperatorEvaluator option" where
  "Create f op = evaluators f op"

record Evaluator =
  OperatorEvaluatorFactory :: operatorEvaluatorFactory

text \<open>The evaluator that \<open>main\<close> builds.\<close>

definition main_evaluator :: Evaluator where
  "main_evaluator = \<lparr>OperatorEvaluatorFactory = NewOperatorEvaluatorFactory\<rparr>"

subsection \<open>Strings, runes and the conversions of package strconv\<close>

text \<open>
  A rune is a Unicode code point. \<open>DecodeRuneInString\<close> is the decoding step of a
  \<open>range\<close> loop over a string (\<open>utf8.DecodeRuneInString\<close>): the rune at the head of
  the string and the number of bytes it takes, an invalid byte giving \<open>RuneError\<close>
  of width 1.
\<close>

type_synonym rune = nat

definition RuneError :: rune where
  "RuneError = 0xFFFD"

fun DecodeRuneInString :: "string \<Rightarrow> rune \<times> nat" where
  "DecodeRuneInString [] = (RuneError, 0)"
| "DecodeRuneInString (c0 # s) =
     (let b0 = (of_char c0 :: nat) in
      if b0 < 0x80 then (b0, 1)
      else if b0 < 0xC2 \<or> 0xF4 < b0 then (RuneError, 1)
      else
        let sz = (if b0 < 0xE0 then 2 else if b0 < 0xF0 then 3 else (4::nat));
            lo = (if b0 = 0xE0 then 0xA0 else if b0 = 0xF0 then 0x90 else (0x80::nat));
            hi = (if b0 = 0xED then 0x9F else if b0 = 0xF4 then 0x8F else (0xBF::nat))
        in
        if length s + 1 < sz then (RuneError, 1)
        else
          let b1 = (of_char (s ! 0) :: nat) in
          if b1 < lo \<or> hi < b1 then (RuneError, 1)
          else if sz \<le> 2 then ((b0 mod 32) * 64 + b1 mod 64, 2)
          else
            let b2 = (of_char (s ! 1) :: nat) in
            if b2 < 0x80 \<or> 0xBF < b2 then (RuneError, 1)
            else if sz \<le> 3 then ((b0 mod 16) * 4096 + (b1 mod 64) * 64 + b2 mod 64, 3)
            else
              let b3 = (of_char (s ! 2) :: nat) in
              if b3 < 0x80 \<or> 0xBF < b3 then (RuneError, 1)
              else ((b0 mod 8) * 262144 + (b1 mod 64) * 4096 + (b2 mod 64) * 64 + b3 mod 64, 4))"

lemma DecodeRuneInString_width:
  "s \<noteq> [] \<Longrightarrow> 1 \<le> snd (DecodeRuneInString s)"
  by (cases s) (simp_all add: Let_def)

text \<open>\<open>for index, c := range s\<close>: the pairs of byte offset and rune, from offset \<open>i\<close>.\<close>

function rangeString :: "int \<Rightarrow> string \<Rightarrow> (int \<times> rune) list" where
  "rangeString i s =
     (if s = [] then []
      else (i, fst (DecodeRuneInString s))
             # rangeString (i + int (snd (DecodeRuneInString s))) (drop (snd (DecodeRuneInString s)) s))"
  by pat_completeness auto
termination
proof (relation "measure (\<lambda>(i, s). length s)")
  show "wf (measure (\<lambda>(i, s). length s))"
    by simp
next
  fix i :: int and s :: string
  assume "s \<noteq> []"
  then have "1 \<le> snd (DecodeRuneInString s)" and "0 < length s"
    by (rule DecodeRuneInString_width, simp)
  then show "((i + int (snd (DecodeRuneInString s)), drop (snd (DecodeRuneInString s)) s), (i, s))
               \<in> measure (\<lambda>(i, s). length s)"
    by simp
qed

declare rangeString.simps [simp del]

text \<open>\<open>strings.Builder.WriteRune\<close> appends the UTF-8 encoding of the rune
  (\<open>utf8.AppendRune\<close>); a surrogate or a value past \<open>0x10FFFF\<close> is written as
  \<open>RuneError\<close>.\<close>

definition EncodeRune :: "rune \<Rightarrow> string" where
  "EncodeRune r =
     (if r < 0x80 then [char_of r]
      else if r < 0x800 then [char_of (0xC0 + r div 64), char_of (0x80 + r mod 64)]
      else if (0xD800 \<le> r \<and> r \<le> 0xDFFF) \<or> 0x10FFFF < r
        then [char_of (0xEF::nat), char_of (0xBF::nat), char_of (0xBD::nat)]
      else if r < 0x10000
        then [char_of (0xE0 + r div 4096), char_of (0x80 + (r div 64) mod 64),
              char_of (0x80 + r mod 64)]
      else [char_of (0xF0 + r div 262144), char_of (0x80 + (r div 4096) mod 64),
            char_of (0x80 + (r div 64) mod 64), char_of (0x80 + r mod 64)])"

definition WriteRune :: "string \<Rightarrow> rune \<Rightarrow> string" where
  "WriteRune builder c = builder @ EncodeRune c"

text \<open>
  \<open>strconv.Atoi\<close>: an optional sign and one or more decimal digits, read in base
  10; \<open>None\<close> is its error (bad syntax, or a value that does not fit the 64-bit
  \<open>int\<close>).
\<close>

definition isDigit :: "char \<Rightarrow> bool" where
  "isDigit c = (48 \<le> (of_char c :: nat) \<and> (of_char c :: nat) \<le> 57)"

definition digitsValue :: "string \<Rightarrow> int" where
  "digitsValue ds = foldl (\<lambda>n ch. n * 10 + (int (of_char ch) - 48)) 0 ds"

definition Atoi :: "string \<Rightarrow> int option" where
  "Atoi s =
     (if s = [] then None
      else
        let neg = (hd s = CHR ''-'');
            ds = (if hd s = CHR ''-'' \<or> hd s = CHR ''+'' then tl s else s)
        in
        if ds = [] \<or> \<not> list_all isDigit ds then None
        else if neg then (if digitsValue ds \<le> 2 ^ 63 then Some (- digitsValue ds) else None)
        else (if digitsValue ds < 2 ^ 63 then Some (digitsValue ds) else None))"

text \<open>
  \<open>strconv.ParseFloat(input, 64)\<close> on the texts a Number token can hold: decimal
  digits with one point and at least one digit. Any other byte is a syntax error
  (a sign, an exponent, a hexadecimal or a named value never reaches a Number
  token, whose bytes are digits, points and bytes from \<open>0x80\<close> on). A value that
  rounds to infinity is a range error.
\<close>

definition ParseFloat :: "string \<Rightarrow> error + real" where
  "ParseFloat input =
     (let ip = takeWhile (\<lambda>c. c \<noteq> CHR ''.'') input;
          fp = drop (length ip + 1) input
      in
      if length ip < length input \<and> list_all isDigit ip \<and> list_all isDigit fp \<and> ip @ fp \<noteq> []
      then
        (let v = (of_int (digitsValue (ip @ fp)) / 10 ^ length fp :: real) in
         if v < 2 ^ 1024 - 2 ^ 970 then Inr v
         else Inl (NumError ''ParseFloat'' input ''value out of range''))
      else Inl (NumError ''ParseFloat'' input ''invalid syntax''))"

definition parseNumber :: "string \<Rightarrow> error + real" where
  "parseNumber input =
     (if CHR ''.'' \<in> set input then ParseFloat input
      else (case Atoi input of
              None \<Rightarrow> Inr 0
            | Some atoi \<Rightarrow> Inr (of_int atoi)))"

subsection \<open>The character tests\<close>

text \<open>\<open>type char uint8\<close>: the conversion \<open>char(c)\<close> of a rune keeps its low 8 bits,
  which is what \<open>char_of\<close> does.\<close>

definition isNumber :: "char \<Rightarrow> bool" where
  "isNumber c = (48 \<le> (of_char c :: nat) \<and> (of_char c :: nat) \<le> 57 \<or> c = CHR ''.'')"

definition isLeftParen :: "char \<Rightarrow> bool" where
  "isLeftParen c = (c = CHR ''('')"

definition isRightParen :: "char \<Rightarrow> bool" where
  "isRightParen c = (c = CHR '')'')"

definition isParen :: "char \<Rightarrow> bool" where
  "isParen c = (c = CHR ''('' \<or> c = CHR '')'')"

subsection \<open>symbolSegments\<close>

text \<open>
  The loop of \<open>symbolSegments\<close> over the runes of \<open>op\<close>: \<open>builder\<close> is its local
  \<open>operatorBuilder\<close>, \<open>toks\<close> the tokens found so far. It returns the builder
  and the tokens at the end of the run, or the error of the space branch.
\<close>

fun symbolSegmentsLoop ::
  "Evaluator \<Rightarrow> int \<Rightarrow> (int \<times> rune) list \<Rightarrow> string \<Rightarrow> token list
     \<Rightarrow> error + (string \<times> token list)" where
  "symbolSegmentsLoop e index [] builder toks = Inr (builder, toks)"
| "symbolSegmentsLoop e index ((i, c) # rest) builder toks =
     (let builder1 = (if c \<noteq> 0x20 then WriteRune builder c else builder);
          tmpIdx = index + i;
          curOp = builder1
      in
      if IsValid (OperatorEvaluatorFactory e) curOp
      then symbolSegmentsLoop e index rest []
             (toks @ [\<lparr>tokenType = operator, tvalue = curOp,
                       start = word_of_int index, tend = word_of_int tmpIdx\<rparr>])
      else if c = 0x20 then Inl (GoError ''invalid space(s) in number or operator'')
      else symbolSegmentsLoop e index rest builder1 toks)"

definition symbolSegments :: "Evaluator \<Rightarrow> string \<Rightarrow> int \<Rightarrow> error + token list" where
  "symbolSegments e op index =
     (if IsValid (OperatorEvaluatorFactory e) op
      then Inr [\<lparr>tokenType = operator, tvalue = op,
                 start = word_of_int index, tend = word_of_int index\<rparr>]
      else
        (case symbolSegmentsLoop e index (rangeString 0 op) [] [] of
           Inl err \<Rightarrow> Inl err
         | Inr (builder, toks) \<Rightarrow>
             if length builder > 0 then Inl (GoError (''invalid operator: '' @ builder))
             else Inr toks))"

subsection \<open>validate\<close>

text \<open>The \<open>range\<close> loop of \<open>validate\<close>, from index \<open>i\<close>.\<close>

function validateLoop :: "token list \<Rightarrow> nat \<Rightarrow> error option" where
  "validateLoop toks i =
     (if i < length toks
      then
        (if tokenType (toks ! i) = number
            \<and> i + 1 < length toks \<and> tokenType (toks ! (i + 1)) = number
         then Some (GoError ''too much numbers without operator between them'')
         else validateLoop toks (i + 1))
      else None)"
  by pat_completeness auto
termination
  by (relation "measure (\<lambda>(toks, i). length toks - i)") auto

declare validateLoop.simps [simp del]

text \<open>\<open>validate\<close> returns the error, \<open>None\<close> for \<open>nil\<close>. Its receiver is not used.\<close>

definition validate :: "token list \<Rightarrow> error option" where
  "validate toks =
     (if length toks = 0 then Some (GoError ''no tokens found'')
      else if tokenType (toks ! 0) = operator
        then Some (GoError ''expression cannot start with an operator'')
      else if tokenType (toks ! (length toks - 1)) = operator
        then Some (GoError ''expression cannot end with an operator'')
      else validateLoop toks 0)"

subsection \<open>tokenize\<close>

text \<open>The variables of \<open>tokenize\<close> that its closures \<open>visitNumber\<close> and
  \<open>visitOperator\<close> share.\<close>

record tokenizeState =
  iterator :: int
  tokens :: "token list"
  operatorBuilder :: string
  numberBuilder :: string

definition visitNumber :: "int \<Rightarrow> tokenizeState \<Rightarrow> tokenizeState" where
  "visitNumber index st =
     (if length (numberBuilder st) = 0 then st
      else
        let curNumber = numberBuilder st in
        st\<lparr>numberBuilder := [],
           tokens := tokens st @ [\<lparr>tokenType = number, tvalue = curNumber,
                                    start = word_of_int (iterator st),
                                    tend = word_of_int index\<rparr>],
           iterator := index + int (length curNumber)\<rparr>)"

definition visitOperator :: "Evaluator \<Rightarrow> int \<Rightarrow> tokenizeState \<Rightarrow> error + tokenizeState" where
  "visitOperator e index st =
     (if length (operatorBuilder st) = 0 then Inr st
      else
        let op = operatorBuilder st in
        (case symbolSegments e op index of
           Inl err \<Rightarrow> Inl err
         | Inr segments \<Rightarrow>
             Inr (st\<lparr>operatorBuilder := [],
                     tokens := tokens st @ segments,
                     iterator := iterator st + int (length op)\<rparr>)))"

text \<open>One turn of the loop \<open>for index, c := range input\<close>: the \<open>switch\<close> on
  \<open>cur := char(c)\<close>, its cases in the order of the source.\<close>

definition tokenizeStep :: "Evaluator \<Rightarrow> int \<Rightarrow> rune \<Rightarrow> tokenizeState \<Rightarrow> error + tokenizeState" where
  "tokenizeStep e index c st =
     (let cur = (char_of c :: char) in
      if isNumber cur
      then visitOperator e index (st\<lparr>numberBuilder := WriteRune (numberBuilder st) c\<rparr>)
      else if isParen cur
      then
        (let t = (if isLeftParen cur then leftParen else rightParen) in
         case visitOperator e index (visitNumber index st) of
           Inl err \<Rightarrow> Inl err
         | Inr st' \<Rightarrow>
             Inr (st'\<lparr>tokens := tokens st' @ [\<lparr>tokenType = t,
                                               tvalue = EncodeRune (of_char cur),
                                               start = word_of_int (iterator st'),
                                               tend = word_of_int index\<rparr>],
                      iterator := iterator st' + 1\<rparr>))
      else if cur = CHR '' ''
      then
        (if length (numberBuilder st) > 0 then Inr (visitNumber index st)
         else if length (operatorBuilder st) > 0 then visitOperator e index st
         else Inr (st\<lparr>iterator := iterator st + 1\<rparr>))
      else
        (let st' = visitNumber index st in
         Inr (st'\<lparr>operatorBuilder := WriteRune (operatorBuilder st') c\<rparr>)))"

fun tokenizeLoop :: "Evaluator \<Rightarrow> (int \<times> rune) list \<Rightarrow> tokenizeState \<Rightarrow> error + tokenizeState" where
  "tokenizeLoop e [] st = Inr st"
| "tokenizeLoop e ((index, c) # rest) st =
     (case tokenizeStep e index c st of
        Inl err \<Rightarrow> Inl err
      | Inr st' \<Rightarrow> tokenizeLoop e rest st')"

definition tokenize :: "Evaluator \<Rightarrow> string \<Rightarrow> error + token list" where
  "tokenize e input =
     (case tokenizeLoop e (rangeString 0 input)
             \<lparr>iterator = 0, tokens = [], operatorBuilder = [], numberBuilder = []\<rparr> of
        Inl err \<Rightarrow> Inl err
      | Inr st \<Rightarrow>
          (case visitOperator e (int (length input)) (visitNumber (int (length input)) st) of
             Inl err \<Rightarrow> Inl err
           | Inr st' \<Rightarrow>
               (case validate (tokens st') of
                  Some err \<Rightarrow> Inl err
                | None \<Rightarrow> Inr (tokens st'))))"

subsection \<open>toReversePolishNotation\<close>

text \<open>
  The inner loop of the \<open>operator\<close> case: \<open>ev\<close> is \<open>Create(t.value)\<close> for the
  incoming token. A method call on a nil interface panics; the call is only made
  when the top of the stack is an operator token.
\<close>

function popOperators ::
  "operatorEvaluatorFactory \<Rightarrow> OperatorEvaluator option \<Rightarrow> token list \<Rightarrow> token list
     \<Rightarrow> error + (token list \<times> token list)" where
  "popOperators f ev stack result =
     (if length stack > 0
      then
        (let top = stack ! (length stack - 1) in
         if tokenType top = operator
         then
           (case ev of
              None \<Rightarrow> Inl (Panic ''nil pointer dereference'')
            | Some operatorEvaluator \<Rightarrow>
                (case Create f (tvalue top) of
                   None \<Rightarrow> Inl (Panic ''nil pointer dereference'')
                 | Some topEvaluator \<Rightarrow>
                     if Precedence_iota (PrecedenceOf operatorEvaluator)
                          \<le> Precedence_iota (PrecedenceOf topEvaluator)
                     then popOperators f ev (take (length stack - 1) stack) (result @ [top])
                     else Inr (stack, result)))
         else Inr (stack, result))
      else Inr (stack, result))"
  by pat_completeness auto
termination
  by (relation "measure (\<lambda>(f, ev, stack, result). length stack)") auto

declare popOperators.simps [simp del]

text \<open>The loop of the \<open>rightParen\<close> case.\<close>

function popUntilLeftParen :: "token list \<Rightarrow> token list \<Rightarrow> token list \<times> token list" where
  "popUntilLeftParen stack result =
     (if length stack \<noteq> 0
      then
        (let top = stack ! (length stack - 1);
             stack' = take (length stack - 1) stack
         in
         if tokenType top = leftParen then (stack', result)
         else popUntilLeftParen stack' (result @ [top]))
      else (stack, result))"
  by pat_completeness auto
termination
  by (relation "measure (\<lambda>(stack, result). length stack)") auto

declare popUntilLeftParen.simps [simp del]

text \<open>The final loop, which empties the stack.\<close>

function drainStack :: "token list \<Rightarrow> token list \<Rightarrow> error + token list" where
  "drainStack stack result =
     (if length stack > 0
      then
        (let top = stack ! (length stack - 1);
             stack' = take (length stack - 1) stack
         in
         if tokenType top = leftParen \<or> tokenType top = rightParen
         then Inl (GoError ''mismatched parentheses'')
         else drainStack stack' (result @ [top]))
      else Inr result)"
  by pat_completeness auto
termination
  by (relation "measure (\<lambda>(stack, result). length stack)") auto

declare drainStack.simps [simp del]

text \<open>The loop over the tokens; the \<open>switch\<close> has no case for \<open>eof\<close>.\<close>

fun rpnLoop ::
  "operatorEvaluatorFactory \<Rightarrow> token list \<Rightarrow> token list \<Rightarrow> token list
     \<Rightarrow> error + (token list \<times> token list)" where
  "rpnLoop f [] stack result = Inr (stack, result)"
| "rpnLoop f (t # ts) stack result =
     (case tokenType t of
        number \<Rightarrow> rpnLoop f ts stack (result @ [t])
      | operator \<Rightarrow>
          (case popOperators f (Create f (tvalue t)) stack result of
             Inl err \<Rightarrow> Inl err
           | Inr (stack', result') \<Rightarrow> rpnLoop f ts (stack' @ [t]) result')
      | leftParen \<Rightarrow> rpnLoop f ts (stack @ [t]) result
      | rightParen \<Rightarrow>
          (case popUntilLeftParen stack result of
             (stack', result') \<Rightarrow> rpnLoop f ts stack' result')
      | eof \<Rightarrow> rpnLoop f ts stack result)"

definition toReversePolishNotation :: "Evaluator \<Rightarrow> token list \<Rightarrow> error + token list" where
  "toReversePolishNotation e toks =
     (case rpnLoop (OperatorEvaluatorFactory e) toks [] [] of
        Inl err \<Rightarrow> Inl err
      | Inr (stack, result) \<Rightarrow> drainStack stack result)"

subsection \<open>EvaluateExpression\<close>

text \<open>The \<open>operator\<close> case of the evaluation loop, for the evaluator found.\<close>

definition applyOperator :: "OperatorEvaluator \<Rightarrow> real list \<Rightarrow> error + real list" where
  "applyOperator operatorEvaluator stack =
     (case TypeOf operatorEvaluator of
        Function \<Rightarrow>
          if length stack < 1 then Inl (GoError ''invalid expression'')
          else
            (let right = stack ! (length stack - 1);
                 stack' = take (length stack - 1) stack
             in case Evaluate operatorEvaluator right 0 of
                  Inl err \<Rightarrow> Inl err
                | Inr result \<Rightarrow> Inr (stack' @ [result]))
      | Infix \<Rightarrow>
          if length stack < 2 then Inl (GoError ''invalid expression'')
          else
            (let right = stack ! (length stack - 1);
                 left = stack ! (length stack - 2);
                 stack' = take (length stack - 2) stack
             in case Evaluate operatorEvaluator left right of
                  Inl err \<Rightarrow> Inl err
                | Inr result \<Rightarrow> Inr (stack' @ [result]))
      | Suffix \<Rightarrow>
          if length stack < 1 then Inl (GoError ''invalid expression'')
          else
            (let left = stack ! (length stack - 1);
                 stack' = take (length stack - 1) stack
             in case Evaluate operatorEvaluator left 0 of
                  Inl err \<Rightarrow> Inl err
                | Inr result \<Rightarrow> Inr (stack' @ [result])))"

text \<open>The loop over the postfix tokens, with the operand stack.\<close>

fun evalLoop :: "Evaluator \<Rightarrow> token list \<Rightarrow> real list \<Rightarrow> error + real list" where
  "evalLoop e [] stack = Inr stack"
| "evalLoop e (t # ts) stack =
     (case tokenType t of
        number \<Rightarrow>
          (case parseNumber (tvalue t) of
             Inl err \<Rightarrow> Inl err
           | Inr num \<Rightarrow> evalLoop e ts (stack @ [num]))
      | operator \<Rightarrow>
          (case Create (OperatorEvaluatorFactory e) (tvalue t) of
             None \<Rightarrow> Inl (Panic ''nil pointer dereference'')
           | Some operatorEvaluator \<Rightarrow>
               (case applyOperator operatorEvaluator stack of
                  Inl err \<Rightarrow> Inl err
                | Inr stack' \<Rightarrow> evalLoop e ts stack'))
      | leftParen \<Rightarrow> evalLoop e ts stack
      | rightParen \<Rightarrow> evalLoop e ts stack
      | eof \<Rightarrow> evalLoop e ts stack)"

text \<open>
  \<open>EvaluateExpression\<close>: the result it returns. The function also prints the token
  list with \<open>fmt.Println\<close>; the output is not part of the model.
  The last statement, \<open>return stack[0], nil\<close>, panics on an empty stack.
\<close>

definition EvaluateExpression :: "Evaluator \<Rightarrow> string \<Rightarrow> error + real" where
  "EvaluateExpression e expression =
     (case tokenize e expression of
        Inl err \<Rightarrow> Inl err
      | Inr toks \<Rightarrow>
          if length toks = 0 then Inl (GoError ''no tokens found'')
          else
            (case toReversePolishNotation e toks of
               Inl err \<Rightarrow> Inl err
             | Inr polishNotation \<Rightarrow>
                 (case evalLoop e polishNotation [] of
                    Inl err \<Rightarrow> Inl err
                  | Inr stack \<Rightarrow>
                      if length stack = 0
                      then Inl (Panic ''index out of range [0] with length 0'')
                      else Inr (stack ! 0))))"

subsection \<open>Notation\<close>

text \<open>A token, written in one line.\<close>

abbreviation tok :: "tokenType \<Rightarrow> string \<Rightarrow> 16 word \<Rightarrow> 16 word \<Rightarrow> token" where
  "tok ty v s e \<equiv> \<lparr>tokenType = ty, tvalue = v, start = s, tend = e\<rparr>"

section \<open>Properties\<close>

subsection \<open>The registry of \<open>main\<close>\<close>

lemma Create_main:
  "Create (OperatorEvaluatorFactory main_evaluator) ''+'' = Some additionEvaluator"
  "Create (OperatorEvaluatorFactory main_evaluator) ''-'' = Some subtractionEvaluator"
  "Create (OperatorEvaluatorFactory main_evaluator) ''*'' = Some multiplicationEvaluator"
  "Create (OperatorEvaluatorFactory main_evaluator) ''/'' = Some divisionEvaluator"
  "Create (OperatorEvaluatorFactory main_evaluator) ''^'' = Some powerEvaluator"
  "Create (OperatorEvaluatorFactory main_evaluator) ''!'' = Some factorialEvaluator"
  "Create (OperatorEvaluatorFactory main_evaluator) ''sqrt'' = Some sqrtEvaluator"
  "Create (OperatorEvaluatorFactory main_evaluator) ''log'' = Some logarithmEvaluator"
  by (simp_all add: Create_def main_evaluator_def NewOperatorEvaluatorFactory_def)

subsection \<open>Numbers\<close>

lemma parseNumber_digits:
  "parseNumber ''0'' = Inr 0"
  "parseNumber ''1'' = Inr 1"
  "parseNumber ''2'' = Inr 2"
  "parseNumber ''3'' = Inr 3"
  "parseNumber ''4'' = Inr 4"
  "parseNumber ''5'' = Inr 5"
  "parseNumber ''6'' = Inr 6"
  by code_simp+


subsection \<open>The factorial loop\<close>

lemma factorialLoop_values:
  "factorialLoop 1 0 1 = 1"
  "factorialLoop 1 3 1 = 6"
  "factorialLoop 1 5 1 = 120"
  by (simp_all add: factorialLoop.simps)

text \<open>An operand whose integer part does not fit \<open>int\<close>: the conversion gives the
  least \<open>int\<close>, the loop is not entered and the result is 1.\<close>

lemma factorial_out_of_range:
  "Evaluate factorialEvaluator (10 ^ 30) r = Inr 1"
proof -
  have "math_Trunc (10 ^ 30) = 10 ^ 30"
    by (simp add: math_Trunc_def)
  then have "float64_to_int (10 ^ 30) = - (2 ^ 63)"
    by (simp add: float64_to_int_def)
  then show ?thesis
    by (simp add: factorialLoop.simps)
qed

subsection \<open>The loop of validate\<close>

lemma ex_from_split:
  "(\<exists>j\<ge>i. P j) \<longleftrightarrow> P i \<or> (\<exists>j\<ge>i + 1. P j)" for i :: nat
proof
  assume "\<exists>j\<ge>i. P j"
  then obtain j where j: "i \<le> j" "P j" by blast
  show "P i \<or> (\<exists>j\<ge>i + 1. P j)"
  proof (cases "j = i")
    case True
    with j show ?thesis by simp
  next
    case False
    with j have "i + 1 \<le> j" by simp
    with j show ?thesis by blast
  qed
next
  assume "P i \<or> (\<exists>j\<ge>i + 1. P j)"
  then show "\<exists>j\<ge>i. P j"
  proof
    assume "P i"
    then show ?thesis by blast
  next
    assume "\<exists>j\<ge>i + 1. P j"
    then obtain j where "i + 1 \<le> j" "P j" by blast
    then have "i \<le> j" "P j" by simp_all
    then show ?thesis by blast
  qed
qed

lemma validateLoop_None:
  "validateLoop toks i = None \<longleftrightarrow>
     \<not> (\<exists>j\<ge>i. j + 1 < length toks \<and> tokenType (toks ! j) = number
                 \<and> tokenType (toks ! (j + 1)) = number)"
proof (induction toks i rule: validateLoop.induct)
  case (1 toks i)
  define P where
    "P j \<longleftrightarrow> j + 1 < length toks \<and> tokenType (toks ! j) = number
             \<and> tokenType (toks ! (j + 1)) = number" for j
  have goal: "validateLoop toks i = None \<longleftrightarrow> \<not> (\<exists>j\<ge>i. P j)"
  proof (cases "i < length toks")
    case False
    then have "validateLoop toks i = None"
      by (subst validateLoop.simps) simp
    moreover have "\<not> (\<exists>j\<ge>i. P j)"
      using False by (simp add: P_def)
    ultimately show ?thesis by simp
  next
    case True
    show ?thesis
    proof (cases "P i")
      case bad: True
      then have "validateLoop toks i \<noteq> None"
        using True by (subst validateLoop.simps) (simp add: P_def)
      moreover have "\<exists>j\<ge>i. P j"
        using bad by blast
      ultimately show ?thesis by simp
    next
      case ok: False
      have step: "validateLoop toks i = validateLoop toks (i + 1)"
        using True ok by (subst validateLoop.simps) (auto simp add: P_def)
      have "validateLoop toks (i + 1) = None \<longleftrightarrow>
              \<not> (\<exists>j\<ge>i + 1. j + 1 < length toks \<and> tokenType (toks ! j) = number
                 \<and> tokenType (toks ! (j + 1)) = number)"
        using True ok by (intro "1.IH") (simp_all add: P_def)
      then have ih: "validateLoop toks (i + 1) = None \<longleftrightarrow> \<not> (\<exists>j\<ge>i + 1. P j)"
        by (simp add: P_def)
      show ?thesis
        using step ih ok ex_from_split [of i P] by simp
    qed
  qed
  then show ?case
    by (simp add: P_def)
qed

lemma validateLoop_msg:
  "validateLoop toks i = None
     \<or> validateLoop toks i = Some (GoError ''too much numbers without operator between them'')"
proof (induction toks i rule: validateLoop.induct)
  case (1 toks i)
  then show ?case
    by (subst (1 2) validateLoop.simps) simp
qed

lemma validateLoop_eq:
  "validateLoop toks 0 =
     (if \<exists>i. i + 1 < length toks \<and> tokenType (toks ! i) = number
              \<and> tokenType (toks ! (i + 1)) = number
      then Some (GoError ''too much numbers without operator between them'')
      else None)"
  using validateLoop_None [of toks 0] validateLoop_msg [of toks 0] by auto

subsection \<open>The evaluator on some expressions\<close>

text \<open>
  For each expression: the tokens of \<open>tokenize\<close> (with the offsets the source
  computes), their postfix order, and the run of the evaluation loop on it.
\<close>

lemma tokenize_add_mul:
  "tokenize main_evaluator ''1+2*3'' =
     Inr [tok number ''1'' 0 1, tok operator ''+'' 2 2, tok number ''2'' 3 3,
          tok operator ''*'' 4 4, tok number ''3'' 5 5]"
  by code_simp

lemma rpn_add_mul:
  "toReversePolishNotation main_evaluator
     [tok number ''1'' 0 1, tok operator ''+'' 2 2, tok number ''2'' 3 3,
      tok operator ''*'' 4 4, tok number ''3'' 5 5] =
   Inr [tok number ''1'' 0 1, tok number ''2'' 3 3, tok operator ''+'' 2 2,
        tok number ''3'' 5 5, tok operator ''*'' 4 4]"
  by code_simp

lemma eval_add_mul:
  "evalLoop main_evaluator
     [tok number ''1'' 0 1, tok number ''2'' 3 3, tok operator ''+'' 2 2,
      tok number ''3'' 5 5, tok operator ''*'' 4 4] [] =
   Inr [9]"
  by (simp add: Create_main parseNumber_digits applyOperator_def)

lemma tokenize_add_div:
  "tokenize main_evaluator ''1+6/3'' =
     Inr [tok number ''1'' 0 1, tok operator ''+'' 2 2, tok number ''6'' 3 3,
          tok operator ''/'' 4 4, tok number ''3'' 5 5]"
  by code_simp

lemma rpn_add_div:
  "toReversePolishNotation main_evaluator
     [tok number ''1'' 0 1, tok operator ''+'' 2 2, tok number ''6'' 3 3,
      tok operator ''/'' 4 4, tok number ''3'' 5 5] =
   Inr [tok number ''1'' 0 1, tok number ''6'' 3 3, tok number ''3'' 5 5,
        tok operator ''/'' 4 4, tok operator ''+'' 2 2]"
  by code_simp

lemma eval_add_div:
  "evalLoop main_evaluator
     [tok number ''1'' 0 1, tok number ''6'' 3 3, tok number ''3'' 5 5,
      tok operator ''/'' 4 4, tok operator ''+'' 2 2] [] =
   Inr [3]"
  by (simp add: Create_main parseNumber_digits applyOperator_def)

lemma tokenize_two_plus_two:
  "tokenize main_evaluator ''2+2'' =
     Inr [tok number ''2'' 0 1, tok operator ''+'' 2 2, tok number ''2'' 3 3]"
  by code_simp

lemma rpn_two_plus_two:
  "toReversePolishNotation main_evaluator
     [tok number ''2'' 0 1, tok operator ''+'' 2 2, tok number ''2'' 3 3] =
   Inr [tok number ''2'' 0 1, tok number ''2'' 3 3, tok operator ''+'' 2 2]"
  by code_simp

lemma eval_two_plus_two:
  "evalLoop main_evaluator
     [tok number ''2'' 0 1, tok number ''2'' 3 3, tok operator ''+'' 2 2] [] =
   Inr [4]"
  by (simp add: Create_main parseNumber_digits applyOperator_def)

lemma tokenize_readme:
  "tokenize main_evaluator ''(1+2)*sqrt(4)-log(1)+3!*2^2'' =
     Inr [tok leftParen ''('' 0 0, tok number ''1'' 1 2, tok operator ''+'' 3 3,
          tok number ''2'' 4 4, tok rightParen '')'' 5 4,
          tok operator ''*'' 10 10, tok operator ''sqrt'' 10 14,
          tok leftParen ''('' 11 10, tok number ''4'' 12 12,
          tok rightParen '')'' 13 12, tok operator ''-'' 17 17,
          tok operator ''log'' 17 20, tok leftParen ''('' 18 17,
          tok number ''1'' 19 19, tok rightParen '')'' 20 19,
          tok operator ''+'' 21 21, tok number ''3'' 22 22,
          tok operator ''!'' 24 24, tok operator ''*'' 24 25,
          tok number ''2'' 25 25, tok operator ''^'' 26 26,
          tok number ''2'' 27 27]"
  by code_simp

lemma rpn_readme:
  "toReversePolishNotation main_evaluator
     [tok leftParen ''('' 0 0, tok number ''1'' 1 2, tok operator ''+'' 3 3,
      tok number ''2'' 4 4, tok rightParen '')'' 5 4,
      tok operator ''*'' 10 10, tok operator ''sqrt'' 10 14,
      tok leftParen ''('' 11 10, tok number ''4'' 12 12,
      tok rightParen '')'' 13 12, tok operator ''-'' 17 17,
      tok operator ''log'' 17 20, tok leftParen ''('' 18 17,
      tok number ''1'' 19 19, tok rightParen '')'' 20 19,
      tok operator ''+'' 21 21, tok number ''3'' 22 22,
      tok operator ''!'' 24 24, tok operator ''*'' 24 25,
      tok number ''2'' 25 25, tok operator ''^'' 26 26,
      tok number ''2'' 27 27] =
   Inr [tok number ''1'' 1 2, tok number ''2'' 4 4, tok operator ''+'' 3 3,
        tok number ''4'' 12 12, tok operator ''sqrt'' 10 14,
        tok operator ''*'' 10 10, tok number ''1'' 19 19,
        tok operator ''log'' 17 20, tok operator ''-'' 17 17,
        tok number ''3'' 22 22, tok operator ''!'' 24 24,
        tok operator ''+'' 21 21, tok number ''2'' 25 25, tok number ''2'' 27 27,
        tok operator ''^'' 26 26, tok operator ''*'' 24 25]"
  by code_simp

lemma eval_readme:
  "evalLoop main_evaluator
     [tok number ''1'' 1 2, tok number ''2'' 4 4, tok operator ''+'' 3 3,
      tok number ''4'' 12 12, tok operator ''sqrt'' 10 14,
      tok operator ''*'' 10 10, tok number ''1'' 19 19,
      tok operator ''log'' 17 20, tok operator ''-'' 17 17,
      tok number ''3'' 22 22, tok operator ''!'' 24 24,
      tok operator ''+'' 21 21, tok number ''2'' 25 25,
      tok number ''2'' 27 27, tok operator ''^'' 26 26,
      tok operator ''*'' 24 25] [] =
   Inr [48]"
  by (simp add: Create_main parseNumber_digits applyOperator_def float64_to_int_def math_Trunc_def math_Pow_def factorialLoop_values)

lemma tokenize_sqrt4:
  "tokenize main_evaluator ''sqrt(4)'' =
     Inl (GoError ''expression cannot start with an operator'')"
  by code_simp

lemma tokenize_mul_sqrt4:
  "tokenize main_evaluator ''1*sqrt(4)'' =
     Inr [tok number ''1'' 0 1, tok operator ''*'' 6 6,
          tok operator ''sqrt'' 6 10, tok leftParen ''('' 7 6,
          tok number ''4'' 8 8, tok rightParen '')'' 9 8]"
  by code_simp

lemma rpn_mul_sqrt4:
  "toReversePolishNotation main_evaluator
     [tok number ''1'' 0 1, tok operator ''*'' 6 6,
      tok operator ''sqrt'' 6 10, tok leftParen ''('' 7 6,
      tok number ''4'' 8 8, tok rightParen '')'' 9 8] =
   Inr [tok number ''1'' 0 1, tok number ''4'' 8 8, tok operator ''sqrt'' 6 10,
        tok operator ''*'' 6 6]"
  by code_simp

lemma eval_mul_sqrt4:
  "evalLoop main_evaluator
     [tok number ''1'' 0 1, tok number ''4'' 8 8, tok operator ''sqrt'' 6 10,
      tok operator ''*'' 6 6] [] =
   Inr [2]"
  by (simp add: Create_main parseNumber_digits applyOperator_def)

lemma tokenize_pow_sqrt4:
  "tokenize main_evaluator ''2^sqrt(4)'' =
     Inr [tok number ''2'' 0 1, tok operator ''^'' 6 6,
          tok operator ''sqrt'' 6 10, tok leftParen ''('' 7 6,
          tok number ''4'' 8 8, tok rightParen '')'' 9 8]"
  by code_simp

lemma rpn_pow_sqrt4:
  "toReversePolishNotation main_evaluator
     [tok number ''2'' 0 1, tok operator ''^'' 6 6,
      tok operator ''sqrt'' 6 10, tok leftParen ''('' 7 6,
      tok number ''4'' 8 8, tok rightParen '')'' 9 8] =
   Inr [tok number ''2'' 0 1, tok operator ''^'' 6 6, tok number ''4'' 8 8,
        tok operator ''sqrt'' 6 10]"
  by code_simp

lemma eval_pow_sqrt4:
  "evalLoop main_evaluator
     [tok number ''2'' 0 1, tok operator ''^'' 6 6, tok number ''4'' 8 8,
      tok operator ''sqrt'' 6 10] [] =
   Inl (GoError ''invalid expression'')"
  by (simp add: Create_main parseNumber_digits applyOperator_def)

lemma tokenize_unclosed:
  "tokenize main_evaluator ''(1+2'' =
     Inr [tok leftParen ''('' 0 0, tok number ''1'' 1 2, tok operator ''+'' 3 3,
          tok number ''2'' 4 4]"
  by code_simp

lemma rpn_unclosed:
  "toReversePolishNotation main_evaluator
     [tok leftParen ''('' 0 0, tok number ''1'' 1 2, tok operator ''+'' 3 3,
      tok number ''2'' 4 4] =
   Inl (GoError ''mismatched parentheses'')"
  by code_simp

lemma tokenize_unopened:
  "tokenize main_evaluator ''1+2)'' =
     Inr [tok number ''1'' 0 1, tok operator ''+'' 2 2, tok number ''2'' 3 3,
          tok rightParen '')'' 4 3]"
  by code_simp

lemma rpn_unopened:
  "toReversePolishNotation main_evaluator
     [tok number ''1'' 0 1, tok operator ''+'' 2 2, tok number ''2'' 3 3,
      tok rightParen '')'' 4 3] =
   Inr [tok number ''1'' 0 1, tok number ''2'' 3 3, tok operator ''+'' 2 2]"
  by code_simp

lemma eval_unopened:
  "evalLoop main_evaluator
     [tok number ''1'' 0 1, tok number ''2'' 3 3, tok operator ''+'' 2 2] [] =
   Inr [3]"
  by (simp add: Create_main parseNumber_digits applyOperator_def)

lemma tokenize_parens:
  "tokenize main_evaluator ''()'' =
     Inr [tok leftParen ''('' 0 0, tok rightParen '')'' 1 1]"
  by code_simp

lemma rpn_parens:
  "toReversePolishNotation main_evaluator
     [tok leftParen ''('' 0 0, tok rightParen '')'' 1 1] =
   Inr []"
  by code_simp

lemma tokenize_div_zero:
  "tokenize main_evaluator ''1/0'' =
     Inr [tok number ''1'' 0 1, tok operator ''/'' 2 2, tok number ''0'' 3 3]"
  by code_simp

lemma rpn_div_zero:
  "toReversePolishNotation main_evaluator
     [tok number ''1'' 0 1, tok operator ''/'' 2 2, tok number ''0'' 3 3] =
   Inr [tok number ''1'' 0 1, tok number ''0'' 3 3, tok operator ''/'' 2 2]"
  by code_simp

lemma eval_div_zero:
  "evalLoop main_evaluator
     [tok number ''1'' 0 1, tok number ''0'' 3 3, tok operator ''/'' 2 2] [] =
   Inl (GoError ''division by zero'')"
  by (simp add: Create_main parseNumber_digits applyOperator_def)

lemma tokenize_fact5:
  "tokenize main_evaluator ''5!'' =
     Inl (GoError ''expression cannot end with an operator'')"
  by code_simp

lemma rpn_fact5_tokens:
  "toReversePolishNotation main_evaluator
     [tok number ''5'' 0 1, tok operator ''!'' 2 2] =
   Inr [tok number ''5'' 0 1, tok operator ''!'' 2 2]"
  by code_simp

lemma eval_fact5_tokens:
  "evalLoop main_evaluator
     [tok number ''5'' 0 1, tok operator ''!'' 2 2] [] =
   Inr [120]"
  by (simp add: Create_main parseNumber_digits applyOperator_def float64_to_int_def
        math_Trunc_def factorialLoop_values)

lemma tokenize_fact0:
  "tokenize main_evaluator ''0!'' =
     Inl (GoError ''expression cannot end with an operator'')"
  by code_simp

lemma tokenize_paren_fact5:
  "tokenize main_evaluator ''(5!)'' =
     Inr [tok leftParen ''('' 0 0, tok number ''5'' 1 2, tok operator ''!'' 3 3,
          tok rightParen '')'' 4 3]"
  by code_simp

lemma rpn_paren_fact5:
  "toReversePolishNotation main_evaluator
     [tok leftParen ''('' 0 0, tok number ''5'' 1 2, tok operator ''!'' 3 3,
      tok rightParen '')'' 4 3] =
   Inr [tok number ''5'' 1 2, tok operator ''!'' 3 3]"
  by code_simp

lemma eval_paren_fact5:
  "evalLoop main_evaluator
     [tok number ''5'' 1 2, tok operator ''!'' 3 3] [] =
   Inr [120]"
  by (simp add: Create_main parseNumber_digits applyOperator_def float64_to_int_def math_Trunc_def factorialLoop_values)

lemma tokenize_paren_fact0:
  "tokenize main_evaluator ''(0!)'' =
     Inr [tok leftParen ''('' 0 0, tok number ''0'' 1 2, tok operator ''!'' 3 3,
          tok rightParen '')'' 4 3]"
  by code_simp

lemma rpn_paren_fact0:
  "toReversePolishNotation main_evaluator
     [tok leftParen ''('' 0 0, tok number ''0'' 1 2, tok operator ''!'' 3 3,
      tok rightParen '')'' 4 3] =
   Inr [tok number ''0'' 1 2, tok operator ''!'' 3 3]"
  by code_simp

lemma eval_paren_fact0:
  "evalLoop main_evaluator
     [tok number ''0'' 1 2, tok operator ''!'' 3 3] [] =
   Inr [1]"
  by (simp add: Create_main parseNumber_digits applyOperator_def float64_to_int_def math_Trunc_def factorialLoop_values)

lemma tokenize_two_numbers:
  "tokenize main_evaluator ''1 2'' =
     Inl (GoError ''too much numbers without operator between them'')"
  by code_simp



text \<open>
  The rune \<open>U+0130\<close> (bytes \<open>C4 B0\<close>) has the low byte \<open>0x30\<close>, the digit \<open>0\<close>:
  \<open>char(c)\<close> takes it for a digit, the Number token holds its two bytes, \<open>Atoi\<close>
  fails on them and the expression evaluates to 0.
\<close>

lemma tokenize_wide_digit:
  "tokenize main_evaluator [CHR 0xC4, CHR 0xB0] = Inr [tok number [CHR 0xC4, CHR 0xB0] 0 2]"
  by code_simp

lemma rpn_wide_digit:
  "toReversePolishNotation main_evaluator [tok number [CHR 0xC4, CHR 0xB0] 0 2]
     = Inr [tok number [CHR 0xC4, CHR 0xB0] 0 2]"
  by code_simp

lemma Atoi_wide_digit: "Atoi [CHR 0xC4, CHR 0xB0] = None"
  by code_simp

lemma EvaluateExpression_wide_digit:
  "EvaluateExpression main_evaluator [CHR 0xC4, CHR 0xB0] = Inr 0"
  by (simp add: EvaluateExpression_def tokenize_wide_digit rpn_wide_digit parseNumber_def
        Atoi_wide_digit)

subsection \<open>The claims\<close>

text \<open>
  C1. For a well-formed expression over \<open>+\<close>, \<open>-\<close>, \<open>*\<close>, \<open>/\<close> and parentheses the
  result should be that of the standard infix reading, \<open>*\<close> and \<open>/\<close> binding
  tighter than \<open>+\<close> and \<open>-\<close>. \<open>multiplicationEvaluator.Precedence\<close> returns
  \<open>Normal\<close>, the precedence of \<open>+\<close>, while division returns \<open>Middle\<close>: on
  \<open>1+2*3\<close> the converter pops \<open>+\<close> when \<open>*\<close> arrives, the postfix form is
  \<open>1 2 + 3 *\<close>, and the result is 9, not 7. Division does bind tighter:
  \<open>1+6/3\<close> is 3.
\<close>

theorem EvaluateExpression_add_mul:
  "EvaluateExpression main_evaluator ''1+2*3'' = Inr 9
   \<and> EvaluateExpression main_evaluator ''1+6/3'' = Inr 3"
  by (simp add: EvaluateExpression_def tokenize_add_mul rpn_add_mul eval_add_mul
        tokenize_add_div rpn_add_div eval_add_div del: evalLoop.simps)

text \<open>
  C2. \<open>2+2\<close> evaluates to 4. The second example of the README,
  \<open>(1+2)*sqrt(4)-log(1)+3!*2^2\<close>, is documented to give 14; its postfix form here
  is \<open>1 2 + 4 sqrt * 1 log - 3 ! + 2 2 ^ *\<close> and the result is 48.
\<close>

theorem EvaluateExpression_readme_examples:
  "EvaluateExpression main_evaluator ''2+2'' = Inr 4
   \<and> EvaluateExpression main_evaluator ''(1+2)*sqrt(4)-log(1)+3!*2^2'' = Inr 48"
  by (simp add: EvaluateExpression_def tokenize_two_plus_two rpn_two_plus_two
        eval_two_plus_two tokenize_readme rpn_readme eval_readme del: evalLoop.simps)

text \<open>
  C3. \<open>sqrt(4)\<close> on its own should evaluate to 2. Its first token is the Operator
  token \<open>sqrt\<close>, which \<open>validate\<close> refuses. After an operator of lower precedence
  the call works (\<open>1*sqrt(4)\<close> is 2); after \<open>^\<close>, of the same precedence as
  \<open>sqrt\<close>, the converter pops \<open>^\<close> before the argument is there and the
  evaluation fails.
\<close>

theorem EvaluateExpression_leading_function:
  "EvaluateExpression main_evaluator ''sqrt(4)''
     = Inl (GoError ''expression cannot start with an operator'')
   \<and> EvaluateExpression main_evaluator ''1*sqrt(4)'' = Inr 2
   \<and> EvaluateExpression main_evaluator ''2^sqrt(4)'' = Inl (GoError ''invalid expression'')"
  by (simp add: EvaluateExpression_def tokenize_sqrt4 tokenize_mul_sqrt4 rpn_mul_sqrt4
        eval_mul_sqrt4 tokenize_pow_sqrt4 rpn_pow_sqrt4 eval_pow_sqrt4 del: evalLoop.simps)

text \<open>
  C4. Mismatched parentheses should fail in both directions. A left parenthesis
  that is never closed stays on the stack and the final loop reports it. A right
  parenthesis with no left one empties the stack and is dropped: \<open>1+2)\<close> evaluates
  to 3.
\<close>

theorem EvaluateExpression_mismatched_parens:
  "EvaluateExpression main_evaluator ''(1+2'' = Inl (GoError ''mismatched parentheses'')
   \<and> EvaluateExpression main_evaluator ''1+2)'' = Inr 3"
  by (simp add: EvaluateExpression_def tokenize_unclosed rpn_unclosed tokenize_unopened
        rpn_unopened eval_unopened del: evalLoop.simps)

text \<open>
  C5. The read of \<open>stack[0]\<close> at the end of \<open>EvaluateExpression\<close> should always be
  in bounds. The input \<open>()\<close> gives two tokens, passes \<open>validate\<close>, and its postfix
  form is empty: the operand stack is empty at the read, which panics.
\<close>

theorem EvaluateExpression_empty_postfix:
  "tokenize main_evaluator ''()'' = Inr [tok leftParen ''('' 0 0, tok rightParen '')'' 1 1]
   \<and> toReversePolishNotation main_evaluator
        [tok leftParen ''('' 0 0, tok rightParen '')'' 1 1] = Inr []
   \<and> EvaluateExpression main_evaluator ''()''
        = Inl (Panic ''index out of range [0] with length 0'')"
  by (simp add: EvaluateExpression_def tokenize_parens rpn_parens)

text \<open>
  C6. Division by a right operand that is exactly 0 fails with the error
  \<open>division by zero\<close> and gives no number: for the evaluator itself, for the
  evaluation loop at a \<open>/\<close> token whatever lies below the two operands and
  whatever follows, and for the expression \<open>1/0\<close>.
\<close>

theorem division_by_zero:
  "Evaluate divisionEvaluator left 0 = Inl (GoError ''division by zero'')
   \<and> evalLoop main_evaluator (tok operator ''/'' s t # rest) (stack @ [left, 0])
        = Inl (GoError ''division by zero'')
   \<and> EvaluateExpression main_evaluator ''1/0'' = Inl (GoError ''division by zero'')"
proof -
  have "applyOperator divisionEvaluator (stack @ [left, 0])
          = Inl (GoError ''division by zero'')"
    by (simp add: applyOperator_def nth_append)
  then have "evalLoop main_evaluator (tok operator ''/'' s t # rest) (stack @ [left, 0])
               = Inl (GoError ''division by zero'')"
    by (simp add: Create_main)
  moreover have "EvaluateExpression main_evaluator ''1/0''
                   = Inl (GoError ''division by zero'')"
    by (simp add: EvaluateExpression_def tokenize_div_zero rpn_div_zero eval_div_zero
          del: evalLoop.simps)
  ultimately show ?thesis by simp
qed

text \<open>
  C7. The factorial of 5 is 120 and that of 0 is 1, and the expressions \<open>5!\<close>
  and \<open>0!\<close> should evaluate to them. Either string ends with the Operator token
  \<open>!\<close>, and \<open>validate\<close> refuses every sequence whose last token is an Operator
  token, whatever the \<open>Type\<close> of the operator: the result is an error. The tokens
  of \<open>5!\<close> themselves convert and evaluate to 120, and so do the expressions in
  parentheses.
\<close>

theorem factorial_expression_rejected:
  "EvaluateExpression main_evaluator ''5!''
     = Inl (GoError ''expression cannot end with an operator'')
   \<and> EvaluateExpression main_evaluator ''0!''
     = Inl (GoError ''expression cannot end with an operator'')
   \<and> toReversePolishNotation main_evaluator
        [tok number ''5'' 0 1, tok operator ''!'' 2 2]
     = Inr [tok number ''5'' 0 1, tok operator ''!'' 2 2]
   \<and> evalLoop main_evaluator [tok number ''5'' 0 1, tok operator ''!'' 2 2] [] = Inr [120]
   \<and> EvaluateExpression main_evaluator ''(5!)'' = Inr 120
   \<and> EvaluateExpression main_evaluator ''(0!)'' = Inr 1"
proof -
  have "EvaluateExpression main_evaluator ''5!''
          = Inl (GoError ''expression cannot end with an operator'')"
    and "EvaluateExpression main_evaluator ''0!''
          = Inl (GoError ''expression cannot end with an operator'')"
    by (simp_all add: EvaluateExpression_def tokenize_fact5 tokenize_fact0)
  moreover have "EvaluateExpression main_evaluator ''(5!)'' = Inr 120"
    by (simp add: EvaluateExpression_def tokenize_paren_fact5 rpn_paren_fact5
          eval_paren_fact5 del: evalLoop.simps)
  moreover have "EvaluateExpression main_evaluator ''(0!)'' = Inr 1"
    by (simp add: EvaluateExpression_def tokenize_paren_fact0 rpn_paren_fact0
          eval_paren_fact0 del: evalLoop.simps)
  ultimately show ?thesis
    using rpn_fact5_tokens eval_fact5_tokens by (simp del: evalLoop.simps)
qed

text \<open>
  C8. \<open>validate\<close> rejects exactly the empty sequence, a sequence whose first token
  is an Operator token, one whose last token is an Operator token, and one with
  two Number tokens next to each other, with these messages and in this order;
  every other sequence passes. The input \<open>1 2\<close> is rejected for its two numbers.
\<close>

theorem validate_rules:
  "validate toks =
     (if toks = [] then Some (GoError ''no tokens found'')
      else if tokenType (hd toks) = operator
        then Some (GoError ''expression cannot start with an operator'')
      else if tokenType (last toks) = operator
        then Some (GoError ''expression cannot end with an operator'')
      else if \<exists>i. i + 1 < length toks \<and> tokenType (toks ! i) = number
                   \<and> tokenType (toks ! (i + 1)) = number
        then Some (GoError ''too much numbers without operator between them'')
      else None)
   \<and> tokenize main_evaluator ''1 2''
        = Inl (GoError ''too much numbers without operator between them'')"
proof -
  have "validate toks =
     (if toks = [] then Some (GoError ''no tokens found'')
      else if tokenType (hd toks) = operator
        then Some (GoError ''expression cannot start with an operator'')
      else if tokenType (last toks) = operator
        then Some (GoError ''expression cannot end with an operator'')
      else if \<exists>i. i + 1 < length toks \<and> tokenType (toks ! i) = number
                   \<and> tokenType (toks ! (i + 1)) = number
        then Some (GoError ''too much numbers without operator between them'')
      else None)"
  proof (cases "toks = []")
    case True
    then show ?thesis by (simp add: validate_def)
  next
    case False
    then have "hd toks = toks ! 0" and "last toks = toks ! (length toks - 1)"
      by (simp_all add: hd_conv_nth last_conv_nth)
    with False show ?thesis
      by (simp add: validate_def validateLoop_eq)
  qed
  then show ?thesis
    by (simp add: tokenize_two_numbers)
qed



end
